theory Spec2Isabelle
  imports Complex_Main "HOL-Library.AList"
begin

section \<open>JavaScript numbers\<close>

text \<open>
  A JavaScript number is modelled as a real number or one of the three special values.
  Finite arithmetic is exact (no rounding, overflow or underflow), and the sign of zero is
  not kept: every divisor of the source that can be zero (\<open>sum\<close>, \<open>evCount\<close>, the
  result of \<open>Math.exp\<close>) is a positive zero, so \<open>x / 0\<close> has the sign of \<open>x\<close>.
\<close>

datatype jsnum = Fin real | PInf | NInf | NaN

fun jneg :: "jsnum \<Rightarrow> jsnum" where
  "jneg (Fin a) = Fin (- a)"
| "jneg PInf = NInf"
| "jneg NInf = PInf"
| "jneg NaN = NaN"

fun jadd :: "jsnum \<Rightarrow> jsnum \<Rightarrow> jsnum" where
  "jadd (Fin a) (Fin b) = Fin (a + b)"
| "jadd NaN _ = NaN"
| "jadd _ NaN = NaN"
| "jadd PInf NInf = NaN"
| "jadd NInf PInf = NaN"
| "jadd PInf _ = PInf"
| "jadd _ PInf = PInf"
| "jadd NInf _ = NInf"
| "jadd _ NInf = NInf"

definition jsub :: "jsnum \<Rightarrow> jsnum \<Rightarrow> jsnum" where
  "jsub a b = jadd a (jneg b)"

fun jmul :: "jsnum \<Rightarrow> jsnum \<Rightarrow> jsnum" where
  "jmul (Fin a) (Fin b) = Fin (a * b)"
| "jmul NaN _ = NaN"
| "jmul _ NaN = NaN"
| "jmul (Fin a) PInf = (if a = 0 then NaN else if 0 < a then PInf else NInf)"
| "jmul (Fin a) NInf = (if a = 0 then NaN else if 0 < a then NInf else PInf)"
| "jmul PInf (Fin b) = (if b = 0 then NaN else if 0 < b then PInf else NInf)"
| "jmul NInf (Fin b) = (if b = 0 then NaN else if 0 < b then NInf else PInf)"
| "jmul PInf PInf = PInf"
| "jmul PInf NInf = NInf"
| "jmul NInf PInf = NInf"
| "jmul NInf NInf = PInf"

fun jdiv :: "jsnum \<Rightarrow> jsnum \<Rightarrow> jsnum" where
  "jdiv (Fin a) (Fin b) =
     (if b = 0 then (if a = 0 then NaN else if 0 < a then PInf else NInf) else Fin (a / b))"
| "jdiv NaN _ = NaN"
| "jdiv _ NaN = NaN"
| "jdiv (Fin a) PInf = Fin 0"
| "jdiv (Fin a) NInf = Fin 0"
| "jdiv PInf (Fin b) = (if 0 \<le> b then PInf else NInf)"
| "jdiv NInf (Fin b) = (if 0 \<le> b then NInf else PInf)"
| "jdiv PInf PInf = NaN"
| "jdiv PInf NInf = NaN"
| "jdiv NInf PInf = NaN"
| "jdiv NInf NInf = NaN"

text \<open>The remainder operator \<open>%\<close>: the result has the sign of the dividend.\<close>

definition trunc :: "real \<Rightarrow> int" where
  "trunc x = (if 0 \<le> x then \<lfloor>x\<rfloor> else \<lceil>x\<rceil>)"

fun jmod :: "jsnum \<Rightarrow> jsnum \<Rightarrow> jsnum" where
  "jmod (Fin a) (Fin b) = (if b = 0 then NaN else Fin (a - b * of_int (trunc (a / b))))"
| "jmod (Fin a) PInf = Fin a"
| "jmod (Fin a) NInf = Fin a"
| "jmod _ _ = NaN"

text \<open>The comparison \<open>a > b\<close>; every comparison with \<open>NaN\<close> is false.\<close>

fun jgt :: "jsnum \<Rightarrow> jsnum \<Rightarrow> bool" where
  "jgt (Fin a) (Fin b) = (b < a)"
| "jgt NaN _ = False"
| "jgt _ NaN = False"
| "jgt PInf PInf = False"
| "jgt PInf _ = True"
| "jgt NInf _ = False"
| "jgt (Fin a) PInf = False"
| "jgt (Fin a) NInf = True"

definition jlt :: "jsnum \<Rightarrow> jsnum \<Rightarrow> bool" where
  "jlt a b = jgt b a"

fun jexp :: "jsnum \<Rightarrow> jsnum" where
  "jexp (Fin a) = Fin (exp a)"
| "jexp PInf = PInf"
| "jexp NInf = Fin 0"
| "jexp NaN = NaN"

fun jfloor :: "jsnum \<Rightarrow> jsnum" where
  "jfloor (Fin a) = Fin (of_int \<lfloor>a\<rfloor>)"
| "jfloor x = x"

section \<open>Objects used as dictionaries\<close>

text \<open>
  A plain object whose keys are not array indices is an association list in insertion
  order, which is the order of \<open>for (k in obj)\<close>. Reading is \<^const>\<open>map_of\<close>,
  assignment \<open>obj[k] = v\<close> is \<^const>\<open>AList.update\<close> (in place when the key exists,
  appended otherwise).
\<close>

type_synonym 'v obj = "(string \<times> 'v) list"

section \<open>The document tree and the XPath functions\<close>

datatype node = Element string "string option" "node list" | TextNode string | Comment string

fun nodeType :: "node \<Rightarrow> nat" where
  "nodeType (Element _ _ _) = 1"
| "nodeType (TextNode _) = 3"
| "nodeType (Comment _) = 8"

fun childNodes :: "node \<Rightarrow> node list" where
  "childNodes (Element _ _ cs) = cs"
| "childNodes _ = []"

fun hasId :: "node \<Rightarrow> bool" where
  "hasId (Element _ (Some _) _) = True"
| "hasId _ = False"

record document =
  isHTMLDocument :: bool
  docNodes :: "node list"

text \<open>
  A node is referred to by its position: the child indices from the document node down to
  it, so \<open>[]\<close> is the document node itself (\<open>nodeType\<close> 9) and \<open>parentNode\<close> is
  \<^const>\<open>butlast\<close>. A position that names no node stands for a \<open>null\<close> reference.
\<close>

type_synonym pos = "nat list"

fun nodeAt :: "node list \<Rightarrow> pos \<Rightarrow> node option" where
  "nodeAt ns [] = None"
| "nodeAt ns [i] = (if i < length ns then Some (ns ! i) else None)"
| "nodeAt ns (i # p) = (if i < length ns then nodeAt (childNodes (ns ! i)) p else None)"

definition childrenAt :: "document \<Rightarrow> pos \<Rightarrow> node list" where
  "childrenAt d p =
     (if p = [] then docNodes d
      else case nodeAt (docNodes d) p of None \<Rightarrow> [] | Some n \<Rightarrow> childNodes n)"

datatype error = TypeError | NodeNotFound

definition getChildNodesWithTagName :: "node list \<Rightarrow> string \<Rightarrow> nat list" where
  "getChildNodesWithTagName cs tag =
     filter (\<lambda>j. case cs ! j of Element t _ _ \<Rightarrow> t \<noteq> [] \<and> t = tag | _ \<Rightarrow> False)
       [0..<length cs]"

definition getChildTextNodes :: "node list \<Rightarrow> nat list" where
  "getChildTextNodes cs = filter (\<lambda>j. nodeType (cs ! j) = 3) [0..<length cs]"

fun listIndex :: "nat list \<Rightarrow> nat \<Rightarrow> nat \<Rightarrow> nat option" where
  "listIndex [] k i = None"
| "listIndex (x # xs) k i = (if x = k then Some (i + 1) else listIndex xs k (i + 1))"

definition indexAmong :: "nat list \<Rightarrow> nat \<Rightarrow> error + nat option" where
  "indexAmong list k =
     (if length list = 1 \<and> list ! 0 = k then Inr None
      else case listIndex list k 0 of Some i \<Rightarrow> Inr (Some i) | None \<Rightarrow> Inl NodeNotFound)"

definition getNodeIndex :: "document \<Rightarrow> pos \<Rightarrow> error + nat option" where
  "getNodeIndex d p =
     (case nodeAt (docNodes d) p of
        None \<Rightarrow> Inl TypeError
      | Some (Element tag _ _) \<Rightarrow>
          indexAmong (getChildNodesWithTagName (childrenAt d (butlast p)) tag) (last p)
      | Some _ \<Rightarrow> Inr None)"

definition getTextNodeIndex :: "document \<Rightarrow> pos \<Rightarrow> error + nat option" where
  "getTextNodeIndex d p =
     (case nodeAt (docNodes d) p of
        None \<Rightarrow> Inl TypeError
      | Some _ \<Rightarrow> indexAmong (getChildTextNodes (childrenAt d (butlast p))) (last p))"

text \<open>
  \<open>getNodePath\<close> climbs from the node to the document node, putting each node in front of
  the result, and stops at the first element that has an \<open>id\<close>. The climb is a recursion on
  the reversed position.
\<close>

fun climb :: "document \<Rightarrow> nat list \<Rightarrow> pos list \<Rightarrow> error + pos list" where
  "climb d [] acc = Inr acc"
| "climb d (i # rp) acc =
     (case nodeAt (docNodes d) (rev (i # rp)) of
        None \<Rightarrow> Inl TypeError
      | Some n \<Rightarrow>
          if nodeType n = 1 \<or> nodeType n = 3
          then (if nodeType n = 1 \<and> hasId n then Inr (rev (i # rp) # acc)
                else climb d rp (rev (i # rp) # acc))
          else Inr acc)"

definition getNodePath :: "document \<Rightarrow> pos \<Rightarrow> error + pos list" where
  "getNodePath d p = climb d (rev p) []"

subsection \<open>Strings\<close>

definition upperChars :: string where "upperChars = ''ABCDEFGHIJKLMNOPQRSTUVWXYZ''"
definition lowerChars :: string where "lowerChars = ''abcdefghijklmnopqrstuvwxyz''"

text \<open>Case conversion of the ASCII letters; other characters are left as they are.\<close>

definition toLowerCase :: "string \<Rightarrow> string" where
  "toLowerCase s =
     map (\<lambda>c. case map_of (zip upperChars lowerChars) c of Some l \<Rightarrow> l | None \<Rightarrow> c) s"

definition toUpperCase :: "string \<Rightarrow> string" where
  "toUpperCase s =
     map (\<lambda>c. case map_of (zip lowerChars upperChars) c of Some u \<Rightarrow> u | None \<Rightarrow> c) s"

definition digitChars :: string where "digitChars = ''0123456789abcdefghijklmnopqrstuvwxyz''"

definition digitChar :: "nat \<Rightarrow> char" where
  "digitChar n = digitChars ! n"

text \<open>The digits of a natural number in base \<open>b\<close>, most significant first.\<close>

function natDigits :: "nat \<Rightarrow> nat \<Rightarrow> string" where
  "natDigits b n =
     (if b < 2 \<or> n < b then [digitChar n] else natDigits b (n div b) @ [digitChar (n mod b)])"
  by pat_completeness auto
termination
  by (relation "measure (\<lambda>(b, n). n)") auto

declare natDigits.simps [simp del]

fun joinStr :: "string \<Rightarrow> string list \<Rightarrow> string" where
  "joinStr sep [] = []"
| "joinStr sep [x] = x"
| "joinStr sep (x # xs) = x @ sep @ joinStr sep xs"

subsection \<open>getXPath\<close>

definition withIndex :: "string \<Rightarrow> nat option \<Rightarrow> string" where
  "withIndex name idx =
     (case idx of None \<Rightarrow> name | Some i \<Rightarrow> name @ ''['' @ natDigits 10 i @ '']'')"

text \<open>The segment pushed for one node of the path; \<open>first\<close> is the test \<open>i == 0\<close>.\<close>

definition nodeName :: "document \<Rightarrow> bool \<Rightarrow> pos \<Rightarrow> error + string list" where
  "nodeName d first q =
     (case nodeAt (docNodes d) q of
        None \<Rightarrow> Inl TypeError
      | Some (Element tag ident _) \<Rightarrow>
          (case (first, ident) of
             (True, Some v) \<Rightarrow> Inr [''/*[@id='' @ [CHR 0x27] @ v @ [CHR 0x27] @ '']'']
           | _ \<Rightarrow>
             (case getNodeIndex d q of
                Inl e \<Rightarrow> Inl e
              | Inr idx \<Rightarrow>
                  Inr [withIndex (if isHTMLDocument d then toLowerCase tag else tag) idx]))
      | Some (TextNode _) \<Rightarrow>
          (case getTextNodeIndex d q of
             Inl e \<Rightarrow> Inl e
           | Inr idx \<Rightarrow> Inr [withIndex ''text()'' idx])
      | Some (Comment _) \<Rightarrow> Inr [])"

fun nodeNames :: "document \<Rightarrow> bool \<Rightarrow> pos list \<Rightarrow> error + string list" where
  "nodeNames d first [] = Inr []"
| "nodeNames d first (q # qs) =
     (case nodeName d first q of
        Inl e \<Rightarrow> Inl e
      | Inr nm \<Rightarrow>
          (case nodeNames d False qs of Inl e \<Rightarrow> Inl e | Inr nms \<Rightarrow> Inr (nm @ nms)))"

definition getXPath :: "document \<Rightarrow> pos \<Rightarrow> error + string" where
  "getXPath d p =
     (case getNodePath d p of
        Inl e \<Rightarrow> Inl e
      | Inr nodePath \<Rightarrow>
          (case nodeNames d True nodePath of
             Inl e \<Rightarrow> Inl e
           | Inr names \<Rightarrow> Inr (''/'' @ joinStr ''/'' names)))"

section \<open>The session state and the interaction tracker\<close>

text \<open>
  An event carries its type and the position of its target. A \<open>Touch\<close> object handed on by
  \<open>touchHandler\<close> has no \<open>type\<close>; the property key is then the string \<open>undefined\<close>.
\<close>

record event =
  etype :: string
  target :: pos

text \<open>
  The globals \<open>prevRank\<close>, \<open>evRank\<close>, \<open>evCount\<close> and \<open>events.config.priorities\<close>, the
  document and the storage. The previous rank is absent or an object parsed from JSON,
  whose values are finite numbers (an entry \<open>null\<close> is falsy, as an absent one is read).
  The storage holds the rank object handed to \<open>JSON.stringify\<close>.
\<close>

record state =
  doc :: document
  priorities :: "real obj"
  prevRank :: "real obj option"
  evRank :: "nat obj obj"
  evCount :: nat
  db :: "string \<rightharpoonup> jsnum obj"

definition findElement :: "document \<Rightarrow> event \<Rightarrow> error + string" where
  "findElement d e =
     (let t = target e in
      if t = [] then getXPath d []
      else case nodeAt (docNodes d) t of
             None \<Rightarrow> Inl TypeError
           | Some n \<Rightarrow> getXPath d (if nodeType n = 3 then butlast t else t))"

definition countOf :: "nat obj \<Rightarrow> string \<Rightarrow> nat" where
  "countOf evts t = (case map_of evts t of None \<Rightarrow> 0 | Some c \<Rightarrow> c)"

definition evtsOf :: "nat obj obj \<Rightarrow> string \<Rightarrow> nat obj" where
  "evtsOf rank elem = (case map_of rank elem of None \<Rightarrow> [] | Some evts \<Rightarrow> evts)"

text \<open>
  The three statements of \<open>updateRank\<close> on \<open>evRank\<close>: create the element's object when
  it is missing, set a missing or zero count to 0, increment the count.
\<close>

definition bumpRank :: "string \<Rightarrow> string \<Rightarrow> nat obj obj \<Rightarrow> nat obj obj" where
  "bumpRank elem ty rank =
     (let rank1 = (case map_of rank elem of None \<Rightarrow> AList.update elem [] rank | Some _ \<Rightarrow> rank);
          evts = evtsOf rank1 elem;
          evts1 = (if countOf evts ty = 0 then AList.update ty 0 evts else evts);
          evts2 = AList.update ty (countOf evts1 ty + 1) evts1
      in AList.update elem evts2 rank1)"

definition updateRank :: "event \<Rightarrow> state \<Rightarrow> error + state" where
  "updateRank e s =
     (case findElement (doc s) e of
        Inl err \<Rightarrow> Inl err
      | Inr elem \<Rightarrow>
          Inr (s\<lparr>evRank := bumpRank elem (etype e) (evRank s), evCount := evCount s + 1\<rparr>))"

text \<open>
  A session: the handlers run one after the other; a handler that throws leaves the state
  as it was.
\<close>

fun run :: "event list \<Rightarrow> state \<Rightarrow> state" where
  "run [] s = s"
| "run (e # es) s = (case updateRank e s of Inl _ \<Rightarrow> run es s | Inr s' \<Rightarrow> run es s')"

definition init :: "document \<Rightarrow> real obj \<Rightarrow> real obj option \<Rightarrow> (string \<rightharpoonup> jsnum obj) \<Rightarrow> state" where
  "init d pr prev store =
     \<lparr>doc = d, priorities = pr, prevRank = prev, evRank = [], evCount = 0, db = store\<rparr>"

definition total :: "nat obj obj \<Rightarrow> nat" where
  "total rank = sum_list (map (\<lambda>(elem, evts). sum_list (map snd evts)) rank)"

definition count :: "nat obj obj \<Rightarrow> string \<Rightarrow> string \<Rightarrow> nat" where
  "count rank elem ty = countOf (evtsOf rank elem) ty"

section \<open>Fusing and differencing the ranks\<close>

definition sinh_js :: "jsnum \<Rightarrow> jsnum" where
  "sinh_js v = (let r = jexp v in jdiv (jsub r (jdiv (Fin 1) r)) (Fin 2))"

text \<open>\<open>multiplier || 1\<close>: a multiplier 0 is replaced by 1.\<close>

definition sigmoid :: "jsnum \<Rightarrow> nat \<Rightarrow> jsnum" where
  "sigmoid v multiplier = sinh_js (jmul v (Fin (real (if multiplier = 0 then 1 else multiplier))))"

definition prioritySum :: "real obj \<Rightarrow> jsnum" where
  "prioritySum pr = foldl (\<lambda>acc (p, w). jadd acc (Fin w)) (Fin 0) pr"

text \<open>A priority that is not configured reads as \<open>undefined\<close>, which divides to \<open>NaN\<close>.\<close>

definition priorityOf :: "real obj \<Rightarrow> string \<Rightarrow> jsnum" where
  "priorityOf pr ev = (case map_of pr ev of None \<Rightarrow> NaN | Some w \<Rightarrow> Fin w)"

text \<open>The inner loop of \<open>fuseRank\<close>, returning \<open>mean\<close> and \<open>n\<close>.\<close>

definition meanAndN :: "real obj \<Rightarrow> jsnum \<Rightarrow> nat obj \<Rightarrow> jsnum \<times> nat" where
  "meanAndN pr psum evts =
     foldl (\<lambda>(mean, n) (ev, c). (jadd mean (jmul (Fin (real c)) (jdiv (priorityOf pr ev) psum)), n + 1))
       (Fin 0, 0) evts"

definition fuseRank :: "real obj \<Rightarrow> nat \<Rightarrow> nat obj obj \<Rightarrow> jsnum obj" where
  "fuseRank pr evCnt rank =
     (let psum = prioritySum pr in
      foldl (\<lambda>oList (elem, evts).
               case meanAndN pr psum evts of
                 (mean, n) \<Rightarrow> AList.update elem (sigmoid (jdiv mean (Fin (real evCnt))) n) oList)
        [] rank)"

text \<open>
  \<open>oldRank && oldRank[elem]\<close>: the old rank is present and its entry is a number other
  than 0.
\<close>

definition diffRank :: "jsnum obj \<Rightarrow> real obj option \<Rightarrow> jsnum obj" where
  "diffRank newRank oldRank =
     foldl (\<lambda>rank (elem, v).
              AList.update elem
                (case oldRank of
                   None \<Rightarrow> v
                 | Some old \<Rightarrow>
                     (case map_of old elem of
                        None \<Rightarrow> v
                      | Some w \<Rightarrow> if w \<noteq> 0 then jsub v (Fin w) else v))
                rank)
       [] newRank"

definition saveRank :: "state \<Rightarrow> state" where
  "saveRank s =
     (let newRank = fuseRank (priorities s) (evCount s) (evRank s);
          diff = diffRank newRank (prevRank s)
      in s\<lparr>db := (db s)(''ace-rank'' \<mapsto> diff)\<rparr>)"

text \<open>
  The rank of the specification, in its words: \<open>S\<close> is the sum of all configured
  weights, the weighted mean is the sum over the observed event types of
  \<open>C[t] * PriorityConfig[t] / S\<close> divided by the total number of events, \<open>n\<close> is the number
  of distinct event types observed, and the rank is the hyperbolic sine of their product.
\<close>

fun jsum :: "jsnum list \<Rightarrow> jsnum" where
  "jsum [] = Fin 0"
| "jsum (x # xs) = jadd x (jsum xs)"

fun sinh_spec :: "jsnum \<Rightarrow> jsnum" where
  "sinh_spec (Fin x) = Fin (sinh x)"
| "sinh_spec v = v"

definition spec_S :: "real obj \<Rightarrow> real" where
  "spec_S pr = sum_list (map snd pr)"

definition spec_weightedMean :: "real obj \<Rightarrow> nat \<Rightarrow> nat obj \<Rightarrow> jsnum" where
  "spec_weightedMean pr totalEvents C =
     jdiv (jsum (map (\<lambda>(t, c). jmul (Fin (real c)) (jdiv (priorityOf pr t) (Fin (spec_S pr)))) C))
       (Fin (real totalEvents))"

definition spec_fused :: "real obj \<Rightarrow> nat \<Rightarrow> nat obj \<Rightarrow> jsnum" where
  "spec_fused pr totalEvents C =
     sinh_spec (jmul (spec_weightedMean pr totalEvents C) (Fin (real (length C))))"

section \<open>Strings and numbers\<close>

definition isWhite :: "char \<Rightarrow> bool" where
  "isWhite c = (c \<in> set [CHR '' '', CHR 0x09, CHR 0x0A, CHR 0x0B, CHR 0x0C, CHR 0x0D])"

definition isDigit :: "char \<Rightarrow> bool" where
  "isDigit c = (c \<in> set ''0123456789'')"

fun charIndex :: "string \<Rightarrow> char \<Rightarrow> nat \<Rightarrow> nat option" where
  "charIndex [] c i = None"
| "charIndex (x # xs) c i = (if x = c then Some i else charIndex xs c (i + 1))"

text \<open>The value of a digit in a radix, if the character is one.\<close>

definition digitValue :: "nat \<Rightarrow> char \<Rightarrow> nat option" where
  "digitValue radix c =
     (case charIndex digitChars (hd (toLowerCase [c])) 0 of
        None \<Rightarrow> None
      | Some v \<Rightarrow> if v < radix then Some v else None)"

definition digitsValue :: "nat \<Rightarrow> string \<Rightarrow> nat" where
  "digitsValue radix ds =
     foldl (\<lambda>acc c. acc * radix + (case digitValue radix c of None \<Rightarrow> 0 | Some v \<Rightarrow> v)) 0 ds"

definition isNegative :: "string \<Rightarrow> bool" where
  "isNegative t = (t \<noteq> [] \<and> hd t = CHR ''-'')"

definition dropSign :: "string \<Rightarrow> string" where
  "dropSign t = (if t \<noteq> [] \<and> (hd t = CHR ''-'' \<or> hd t = CHR ''+'') then tl t else t)"

text \<open>
  \<open>parseInt(string, radix)\<close> for a radix that is absent or within 2 to 36: leading white
  space, a sign, the prefix \<open>0x\<close> when the radix is 16 or absent, then the longest run of
  digits; \<open>NaN\<close> when there is none.
\<close>

definition parseInt :: "string \<Rightarrow> nat option \<Rightarrow> jsnum" where
  "parseInt s radix =
     (let t = dropWhile isWhite s;
          u = dropSign t;
          hexPrefix = (take 2 u = ''0x'' \<or> take 2 u = ''0X'');
          R = (case radix of None \<Rightarrow> (if hexPrefix then 16 else 10) | Some r \<Rightarrow> r);
          v = (if hexPrefix \<and> R = 16 then drop 2 u else u);
          ds = takeWhile (\<lambda>c. digitValue R c \<noteq> None) v
      in if ds = [] then NaN
         else Fin (if isNegative t then - real (digitsValue R ds) else real (digitsValue R ds)))"

definition parseExponent :: "string \<Rightarrow> int" where
  "parseExponent r =
     (case r of
        [] \<Rightarrow> 0
      | c # r1 \<Rightarrow>
          if c = CHR ''e'' \<or> c = CHR ''E''
          then (let ds = takeWhile isDigit (dropSign r1)
                in if ds = [] then 0
                   else if isNegative r1 then - int (digitsValue 10 ds) else int (digitsValue 10 ds))
          else 0)"

text \<open>
  \<open>parseFloat\<close>: leading white space, then the longest prefix that is a decimal literal
  (sign, \<open>Infinity\<close> or digits with an optional fraction and exponent); its value is taken
  exactly.
\<close>

definition parseFloat :: "string \<Rightarrow> jsnum" where
  "parseFloat s =
     (let t = dropWhile isWhite s;
          u = dropSign t
      in if take 8 u = ''Infinity'' then (if isNegative t then NInf else PInf)
         else
           (let ip = takeWhile isDigit u;
                r1 = dropWhile isDigit u;
                hasDot = (r1 \<noteq> [] \<and> hd r1 = CHR ''.'');
                fp = (if hasDot then takeWhile isDigit (tl r1) else []);
                r2 = (if hasDot then dropWhile isDigit (tl r1) else r1)
            in if ip = [] \<and> fp = [] then NaN
               else
                 (let m = real (digitsValue 10 ip) + real (digitsValue 10 fp) / 10 ^ length fp;
                      e = parseExponent r2;
                      v = (if 0 \<le> e then m * 10 ^ nat e else m / 10 ^ nat (- e))
                  in Fin (if isNegative t then - v else v))))"

fun fracDigits :: "nat \<Rightarrow> nat \<Rightarrow> real \<Rightarrow> string" where
  "fracDigits b 0 f = []"
| "fracDigits b (Suc k) f =
     (if f = 0 then []
      else digitChar (nat \<lfloor>f * real b\<rfloor>) # fracDigits b k (f * real b - of_int \<lfloor>f * real b\<rfloor>))"

text \<open>
  \<open>Number.prototype.toString(radix)\<close>. An integer is printed by its digits. For a number
  with a fraction the model prints the exact expansion, cut after 20 digits; the engine
  prints the shortest digits that read back as the same double, and uses an exponent for
  very large and very small numbers.
\<close>

definition numToString :: "nat \<Rightarrow> jsnum \<Rightarrow> string" where
  "numToString radix v =
     (case v of
        NaN \<Rightarrow> ''NaN''
      | PInf \<Rightarrow> ''Infinity''
      | NInf \<Rightarrow> ''-Infinity''
      | Fin x \<Rightarrow>
          (let ip = nat \<lfloor>\<bar>x\<bar>\<rfloor>; f = \<bar>x\<bar> - real ip
           in (if x < 0 then ''-'' else []) @ natDigits radix ip @
              (if f = 0 then [] else ''.'' @ fracDigits radix 20 f)))"

text \<open>\<open>s.split(sep)\<close> for a string separator, scanning for \<open>sep\<close> from left to right.\<close>

fun splitGo :: "string \<Rightarrow> nat \<Rightarrow> string \<Rightarrow> string \<Rightarrow> string list" where
  "splitGo sep skip cur [] = [rev cur]"
| "splitGo sep (Suc skip) cur (c # cs) = splitGo sep skip cur cs"
| "splitGo sep 0 cur (c # cs) =
     (if take (length sep) (c # cs) = sep then rev cur # splitGo sep (length sep - 1) [] cs
      else splitGo sep 0 (c # cur) cs)"

definition splitStr :: "string \<Rightarrow> string \<Rightarrow> string list" where
  "splitStr sep s = (if sep = [] then map (\<lambda>c. [c]) s else splitGo sep 0 [] s)"

definition indexOf :: "string \<Rightarrow> char \<Rightarrow> int" where
  "indexOf s c = (case charIndex s c 0 of None \<Rightarrow> - 1 | Some i \<Rightarrow> int i)"

text \<open>\<open>s.substring(a, b)\<close>: both indices are clamped to the string and swapped if needed.\<close>

definition substring :: "string \<Rightarrow> int \<Rightarrow> int \<Rightarrow> string" where
  "substring s a b =
     (let a' = nat (max 0 (min a (int (length s))));
          b' = nat (max 0 (min b (int (length s))))
      in take (max a' b' - min a' b') (drop (min a' b') s))"

definition substr :: "string \<Rightarrow> nat \<Rightarrow> nat \<Rightarrow> string" where
  "substr s start len = take len (drop start s)"

fun containsStr :: "string \<Rightarrow> string \<Rightarrow> bool" where
  "containsStr sub [] = (sub = [])"
| "containsStr sub (c # cs) = (take (length sub) (c # cs) = sub \<or> containsStr sub cs)"

section \<open>The style adapter\<close>

text \<open>
  \<open>rgb[i]\<close>: an entry that is missing is \<open>undefined\<close>, which the arithmetic of
  \<open>rgbBrightness\<close> and \<open>cssColorAdapt\<close> reads as \<open>NaN\<close>.
\<close>

definition chan :: "jsnum list \<Rightarrow> nat \<Rightarrow> jsnum" where
  "chan rgb i = (if i < length rgb then rgb ! i else NaN)"

definition cssDimensionAdapt :: "jsnum \<Rightarrow> jsnum \<Rightarrow> jsnum" where
  "cssDimensionAdapt v weight =
     (let multiplier = jadd (Fin 1) weight in if jgt v (Fin 0) then jmul v multiplier else multiplier)"

definition rgbBrightness :: "jsnum list \<Rightarrow> jsnum" where
  "rgbBrightness rgb =
     jdiv (jadd (jadd (jmul (chan rgb 0) (Fin 299)) (jmul (chan rgb 1) (Fin 587)))
             (jmul (chan rgb 2) (Fin 114)))
       (Fin 1000)"

definition hex2 :: "jsnum \<Rightarrow> string" where
  "hex2 c = (let r = numToString 16 c in if length r < 2 then r @ r else r)"

definition rgb2hex :: "jsnum \<times> jsnum \<times> jsnum \<Rightarrow> string" where
  "rgb2hex rgb = (case rgb of (r, g, b) \<Rightarrow> hex2 r @ hex2 g @ hex2 b)"

definition rgb2dec :: "jsnum \<times> jsnum \<times> jsnum \<Rightarrow> jsnum" where
  "rgb2dec rgb = parseInt (rgb2hex rgb) (Some 16)"

definition cssColor :: "jsnum \<Rightarrow> string" where
  "cssColor num =
     (let str = numToString 16 (jfloor num)
      in ''#'' @ toUpperCase (replicate (6 - length str) CHR ''0'' @ str))"

definition atLeast0 :: "jsnum \<Rightarrow> jsnum" where
  "atLeast0 r = (if jlt r (Fin 0) then Fin 0 else r)"

definition atMost255 :: "jsnum \<Rightarrow> jsnum" where
  "atMost255 r = (if jgt r (Fin 255) then Fin 255 else r)"

text \<open>The channels \<open>[r, g, b]\<close> that \<open>cssColorAdapt\<close> hands to \<open>rgb2dec\<close>.\<close>

definition adaptedChannels :: "jsnum list \<Rightarrow> jsnum \<Rightarrow> jsnum \<times> jsnum \<times> jsnum" where
  "adaptedChannels rgb weight =
     (let oldBright = rgbBrightness rgb;
          newBright = cssDimensionAdapt oldBright weight;
          csum = jadd (jadd (chan rgb 0) (chan rgb 1)) (chan rgb 2)
      in if jgt oldBright newBright
         then (let diff = jmod (jsub csum newBright) (Fin 255)
               in (atLeast0 (jsub (chan rgb 0) diff), atLeast0 (jsub (chan rgb 1) diff),
                   atLeast0 (jsub (chan rgb 2) diff)))
         else (let diff = jmod (jsub newBright oldBright) (Fin 255)
               in (atMost255 (jadd (chan rgb 0) diff), atMost255 (jadd (chan rgb 1) diff),
                   atMost255 (jadd (chan rgb 2) diff))))"

definition cssColorAdapt :: "jsnum list \<Rightarrow> jsnum \<Rightarrow> string" where
  "cssColorAdapt rgb weight = cssColor (rgb2dec (adaptedChannels rgb weight))"

text \<open>
  \<open>parseColor\<close> returns the array \<open>rgb\<close>. In the \<open>rgb(...)\<close> form the entries after the
  third are the strings that \<open>split\<close> left there; nothing reads them and the model drops
  them. \<open>parseInt\<close> of a missing part reads the string \<open>undefined\<close>.
\<close>

definition parseColor :: "string \<Rightarrow> jsnum list" where
  "parseColor color =
     (case color of
        [] \<Rightarrow> []
      | c0 # _ \<Rightarrow>
          if c0 = CHR ''r''
          then (let fparen = indexOf color CHR ''('';
                    lparen = indexOf color CHR '')'';
                    parts = splitStr '','' (substring color (fparen + 1) lparen)
                in map (\<lambda>j. parseInt (if j < length parts then parts ! j else ''undefined'') None)
                     [0, 1, 2])
          else if c0 = CHR ''#''
          then (let offset = (if length color < 6 then 1 else 2)
                in map (\<lambda>i. let col = substr color (1 + i * offset) offset
                            in parseInt (if offset = 1 then col @ col else col) (Some 16))
                     [0, 1, 2])
          else [])"

text \<open>\<open>parseDimension\<close>: the value and \<open>parts[1]\<close>, which is \<open>undefined\<close> when there is none.\<close>

definition parseDimension :: "string \<Rightarrow> jsnum \<times> string option" where
  "parseDimension dimension =
     (let v = parseFloat dimension;
          parts = splitStr (numToString 10 v) dimension
      in (v, if 1 < length parts then Some (parts ! 1) else None))"

text \<open>
  \<open>number + unit\<close>: with a string the number is printed and the unit appended; with
  \<open>undefined\<close> the sum is the number \<open>NaN\<close>, which \<open>setProperty\<close> receives as a string.
\<close>

definition plusUnit :: "jsnum \<Rightarrow> string option \<Rightarrow> string" where
  "plusUnit v unit =
     (case unit of Some u \<Rightarrow> numToString 10 v @ u | None \<Rightarrow> numToString 10 (jadd v NaN))"

text \<open>
  \<open>restyle\<close>, with the value read by \<open>getStyle\<close> as an argument; the result is the value
  handed to \<open>setStyle\<close>, or \<open>None\<close> when it returns without writing.
\<close>

definition restyle :: "string \<Rightarrow> string \<Rightarrow> jsnum \<Rightarrow> string option" where
  "restyle cssProp cssValue weight =
     (if cssValue = [] then None
      else if containsStr ''color'' cssProp
      then Some (cssColorAdapt (parseColor cssValue) weight)
      else if \<exists>c \<in> set cssValue. isDigit c
      then (case parseDimension cssValue of
              (v, unit) \<Rightarrow> Some (plusUnit (cssDimensionAdapt v weight) unit))
      else Some cssValue)"

section \<open>Auxiliary notions for the properties\<close>

text \<open>Every stored object of counts is non-empty and every stored count is positive.\<close>

definition positive :: "nat obj obj \<Rightarrow> bool" where
  "positive rank \<longleftrightarrow>
     (\<forall>elem evts. map_of rank elem = Some evts \<longrightarrow>
        evts \<noteq> [] \<and> (\<forall>t c. map_of evts t = Some c \<longrightarrow> 0 < c))"

definition tracked :: "state \<Rightarrow> bool" where
  "tracked s \<longleftrightarrow> evCount s = total (evRank s) \<and> positive (evRank s)"

definition weightOf :: "real obj \<Rightarrow> string \<Rightarrow> real" where
  "weightOf pr t = (case map_of pr t of None \<Rightarrow> 0 | Some w \<Rightarrow> w)"

text \<open>
  The colour rule in the words of the specification: the brightness
  \<open>0.299 R + 0.587 G + 0.114 B\<close>, the target brightness, and one adjustment
  \<open>(R + G + B - target) mod 255\<close> for both directions.
\<close>

definition rmod :: "real \<Rightarrow> real \<Rightarrow> real" where
  "rmod x m = x - m * of_int \<lfloor>x / m\<rfloor>"

definition spec_brightness :: "real \<Rightarrow> real \<Rightarrow> real \<Rightarrow> real" where
  "spec_brightness r g b = (299 * r + 587 * g + 114 * b) / 1000"

definition spec_target :: "real \<Rightarrow> real \<Rightarrow> real" where
  "spec_target B w = (if B = 0 then 1 + w else B * (1 + w))"

definition spec_channels :: "real \<Rightarrow> real \<Rightarrow> real \<Rightarrow> real \<Rightarrow> real \<times> real \<times> real" where
  "spec_channels r g b w =
     (let B = spec_brightness r g b;
          T = spec_target B w;
          D = rmod (r + g + b - T) 255
      in if T < B then (max 0 (r - D), max 0 (g - D), max 0 (b - D))
         else (min 255 (r + D), min 255 (g + D), min 255 (b + D)))"

text \<open>
  The rule with the adjustment of the increasing direction taken from the difference of
  the two brightnesses.
\<close>

definition amended_channels :: "real \<Rightarrow> real \<Rightarrow> real \<Rightarrow> real \<Rightarrow> real \<times> real \<times> real" where
  "amended_channels r g b w =
     (let B = spec_brightness r g b;
          T = spec_target B w
      in if T < B
         then (let D = rmod (r + g + b - T) 255
               in (max 0 (r - D), max 0 (g - D), max 0 (b - D)))
         else (let D = rmod (T - B) 255
               in (min 255 (r + D), min 255 (g + D), min 255 (b + D))))"

definition fin3 :: "real \<times> real \<times> real \<Rightarrow> jsnum \<times> jsnum \<times> jsnum" where
  "fin3 t = (case t of (r, g, b) \<Rightarrow> (Fin r, Fin g, Fin b))"

text \<open>A small HTML document and two events on it, used to instantiate the properties.\<close>

definition exampleDoc :: document where
  "exampleDoc =
     \<lparr>isHTMLDocument = True,
      docNodes =
        [Element ''HTML'' None
           [Element ''HEAD'' None [],
            Element ''BODY'' None
              [Element ''DIV'' None [TextNode ''a''],
               Element ''DIV'' (Some ''x'') [Element ''P'' None [TextNode ''t'']]]]]\<rparr>"

definition clickDiv :: event where
  "clickDiv = \<lparr>etype = ''click'', target = [0, 1, 0, 0]\<rparr>"

definition clickNowhere :: event where
  "clickNowhere = \<lparr>etype = ''click'', target = [7]\<rparr>"

section \<open>Lemmas about numbers and objects\<close>

lemma jadd_commute: "jadd a b = jadd b a"
  by (cases a; cases b; simp)

lemma jadd_assoc: "jadd (jadd a b) c = jadd a (jadd b c)"
  by (cases a; cases b; cases c; simp)

lemma jadd_zero_left: "jadd (Fin 0) a = a"
  by (cases a) simp_all

lemma jsub_zero: "jsub v (Fin 0) = v"
  by (cases v) (simp_all add: jsub_def)

lemma sinh_js_eq: "sinh_js v = sinh_spec v"
  by (cases v) (simp_all add: sinh_js_def jsub_def sinh_def exp_minus inverse_eq_divide Let_def)

lemma update_fresh: "k \<notin> fst ` set al \<Longrightarrow> AList.update k v al = al @ [(k, v)]"
  by (induction al) auto

lemma foldl_update_map:
  "distinct (map fst acc @ map fst xs) \<Longrightarrow>
   foldl (\<lambda>r (k, v). AList.update k (f k v) r) acc xs = acc @ map (\<lambda>(k, v). (k, f k v)) xs"
proof (induction xs arbitrary: acc)
  case Nil
  then show ?case by simp
next
  case (Cons x xs)
  obtain k v where x: "x = (k, v)" by (cases x)
  from Cons.prems have fresh: "k \<notin> fst ` set acc" by (auto simp: x)
  from Cons.prems have "distinct (map fst (acc @ [(k, f k v)]) @ map fst xs)"
    by (auto simp: x)
  from Cons.IH [OF this] show ?case
    by (simp add: x update_fresh [OF fresh])
qed

lemma map_of_map_keyed:
  "map_of (map (\<lambda>(k, v). (k, f k v)) xs) k = map_option (f k) (map_of xs k)"
  by (induction xs) auto

lemma diffRank_map:
  assumes "distinct (map fst newRank)"
  shows "diffRank newRank oldRank =
     map (\<lambda>(elem, v). (elem, case oldRank of None \<Rightarrow> v
            | Some old \<Rightarrow> (case map_of old elem of None \<Rightarrow> v | Some w \<Rightarrow> jsub v (Fin w)))) newRank"
proof -
  have eq: "(if w \<noteq> 0 then jsub v (Fin w) else v) = jsub v (Fin w)" for v w
    by (simp add: jsub_zero)
  show ?thesis
    unfolding diffRank_def eq
    using foldl_update_map [of "[]" newRank] assms by simp
qed

lemma sumc_update:
  "sum_list (map snd (AList.update t c evts)) + countOf evts t = sum_list (map snd evts) + c"
  by (induction evts) (auto simp: countOf_def)

lemma total_update:
  "total (AList.update e ev r) + sum_list (map snd (evtsOf r e)) = total r + sum_list (map snd ev)"
  by (induction r) (auto simp: total_def evtsOf_def)

lemma total_bumpRank: "total (bumpRank elem ty rank) = total rank + 1"
proof -
  define rank1 where "rank1 = (case map_of rank elem of None \<Rightarrow> AList.update elem [] rank | Some _ \<Rightarrow> rank)"
  define evts where "evts = evtsOf rank1 elem"
  define evts1 where "evts1 = (if countOf evts ty = 0 then AList.update ty 0 evts else evts)"
  define evts2 where "evts2 = AList.update ty (countOf evts1 ty + 1) evts1"
  have b: "bumpRank elem ty rank = AList.update elem evts2 rank1"
    by (simp add: bumpRank_def Let_def rank1_def evts_def evts1_def evts2_def)
  have t1: "total rank1 = total rank"
    using total_update [of elem "[]" rank]
    by (auto simp: rank1_def evtsOf_def split: option.splits)
  have s1: "sum_list (map snd evts1) = sum_list (map snd evts)"
    using sumc_update [of ty 0 evts] by (auto simp: evts1_def)
  have s2: "sum_list (map snd evts2) = sum_list (map snd evts1) + 1"
    using sumc_update [of ty "countOf evts1 ty + 1" evts1] by (simp add: evts2_def)
  show ?thesis
    using total_update [of elem evts2 rank1] by (simp add: b t1 s1 s2 evts_def)
qed

lemma countOf_update: "countOf (AList.update t c evts) t' = (if t' = t then c else countOf evts t')"
  by (simp add: countOf_def update_conv')

lemma evtsOf_update: "evtsOf (AList.update e ev r) e' = (if e' = e then ev else evtsOf r e')"
  by (simp add: evtsOf_def update_conv')

lemma count_bumpRank:
  "count (bumpRank elem ty rank) p t = count rank p t + (if p = elem \<and> t = ty then 1 else 0)"
  by (auto simp: count_def bumpRank_def Let_def evtsOf_update countOf_update
        split: option.splits)
     (auto simp: evtsOf_def countOf_def)

lemma positive_bumpRank: "positive rank \<Longrightarrow> positive (bumpRank elem ty rank)"
  unfolding positive_def bumpRank_def Let_def
  by (auto simp: update_conv' evtsOf_def countOf_def
        split: option.splits if_splits)

lemma positive_total_zero:
  assumes "positive rank" "total rank = 0"
  shows "rank = []"
proof (cases rank)
  case Nil
  then show ?thesis .
next
  case (Cons x xs)
  obtain elem evts where x: "x = (elem, evts)" by (cases x)
  have m: "map_of rank elem = Some evts" by (simp add: Cons x)
  with assms(1) have ne: "evts \<noteq> []" and pos: "\<And>t c. map_of evts t = Some c \<Longrightarrow> 0 < c"
    by (auto simp: positive_def)
  obtain t c rest where evts: "evts = (t, c) # rest"
    using ne by (cases evts) auto
  have "0 < c" using pos [of t c] by (simp add: evts)
  then have "0 < total rank" by (simp add: total_def Cons x evts)
  with assms(2) show ?thesis by simp
qed

lemma tracked_updateRank: "tracked s \<Longrightarrow> updateRank e s = Inr s' \<Longrightarrow> tracked s'"
  by (auto simp: tracked_def updateRank_def total_bumpRank positive_bumpRank split: sum.splits)

lemma tracked_run: "tracked s \<Longrightarrow> tracked (run es s)"
  by (induction es arbitrary: s) (auto split: sum.splits dest: tracked_updateRank)

lemma tracked_init: "tracked (init d pr prev store)"
  by (simp add: tracked_def init_def total_def positive_def)

lemma updateRank_frame:
  "updateRank e s = Inr s' \<Longrightarrow>
   doc s' = doc s \<and> priorities s' = priorities s \<and> prevRank s' = prevRank s \<and> db s' = db s"
  by (auto simp: updateRank_def split: sum.splits)

lemma run_frame:
  "doc (run es s) = doc s \<and> priorities (run es s) = priorities s \<and>
   prevRank (run es s) = prevRank s \<and> db (run es s) = db s"
  by (induction es arbitrary: s) (auto split: sum.splits dest: updateRank_frame)

lemma prioritySum_eq: "prioritySum pr = Fin (spec_S pr)"
proof -
  have "foldl (\<lambda>acc (p, w). jadd acc (Fin w)) (Fin a) pr = Fin (a + sum_list (map snd pr))" for a
    by (induction pr arbitrary: a) (auto simp: add.assoc)
  from this [of 0] show ?thesis by (simp add: prioritySum_def spec_S_def)
qed

lemma meanAndN_eq:
  "meanAndN pr psum evts =
     (jsum (map (\<lambda>(t, c). jmul (Fin (real c)) (jdiv (priorityOf pr t) psum)) evts), length evts)"
proof -
  define F where "F = (\<lambda>(mean, n) (ev, c).
     (jadd mean (jmul (Fin (real c)) (jdiv (priorityOf pr ev) psum)), (n::nat) + 1))"
  let ?g = "\<lambda>(t, c). jmul (Fin (real c)) (jdiv (priorityOf pr t) psum)"
  have "foldl F (m, k) evts = (jadd m (jsum (map ?g evts)), k + length evts)" for m k
  proof (induction evts arbitrary: m k)
    case Nil
    show ?case by (simp add: jadd_commute [of m] jadd_zero_left)
  next
    case (Cons x xs)
    obtain t c where x: "x = (t, c)" by (cases x)
    have "F (m, k) x = (jadd m (?g (t, c)), k + 1)" by (simp add: F_def x)
    then have "foldl F (m, k) (x # xs) = foldl F (jadd m (?g (t, c)), k + 1) xs" by simp
    also have "\<dots> = (jadd (jadd m (?g (t, c))) (jsum (map ?g xs)), k + 1 + length xs)"
      by (rule Cons.IH)
    finally show ?case by (simp add: x jadd_assoc)
  qed
  from this [of "Fin 0" 0] show ?thesis by (simp add: meanAndN_def F_def jadd_zero_left)
qed

lemma sigmoid_fused:
  assumes "0 < evCnt"
  shows "sigmoid (jdiv (jsum (map (\<lambda>(t, c). jmul (Fin (real c)) (jdiv (priorityOf pr t) (prioritySum pr))) C))
            (Fin (real evCnt))) (length C) = spec_fused pr evCnt C"
proof (cases C)
  case Nil
  with assms show ?thesis
    by (simp add: sigmoid_def sinh_js_eq spec_fused_def spec_weightedMean_def)
next
  case (Cons x xs)
  then show ?thesis
    by (simp add: sigmoid_def sinh_js_eq spec_fused_def spec_weightedMean_def prioritySum_eq)
qed

lemma fuseRank_map:
  assumes "0 < evCnt" "distinct (map fst rank)"
  shows "fuseRank pr evCnt rank = map (\<lambda>(p, C). (p, spec_fused pr evCnt C)) rank"
proof -
  have "fuseRank pr evCnt rank =
          foldl (\<lambda>oList (elem, evts). AList.update elem (spec_fused pr evCnt evts) oList) [] rank"
    by (simp add: fuseRank_def Let_def meanAndN_eq sigmoid_fused [OF assms(1)])
  also have "\<dots> = map (\<lambda>(p, C). (p, spec_fused pr evCnt C)) rank"
    using foldl_update_map [of "[]" rank "\<lambda>k v. spec_fused pr evCnt v"] assms(2) by simp
  finally show ?thesis .
qed

lemma jsum_Fin:
  assumes "\<forall>t \<in> fst ` set C. t \<in> fst ` set pr" "S \<noteq> 0"
  shows "jsum (map (\<lambda>(t, c). jmul (Fin (real c)) (jdiv (priorityOf pr t) (Fin S))) C)
         = Fin (\<Sum>(t, c)\<leftarrow>C. real c * weightOf pr t / S)"
  using assms(1)
proof (induction C)
  case Nil
  show ?case by simp
next
  case (Cons x xs)
  obtain t c where x: "x = (t, c)" by (cases x)
  from Cons.prems have "t \<in> fst ` set pr" by (simp add: x)
  then obtain w where w: "map_of pr t = Some w"
    by (metis domIff dom_map_of_conv_image_fst not_Some_eq)
  from Cons.prems have "\<forall>t \<in> fst ` set xs. t \<in> fst ` set pr" by simp
  from Cons.IH [OF this] show ?case
    using assms(2) by (simp add: x priorityOf_def weightOf_def w)
qed

lemma spec_fused_real:
  assumes "\<forall>t \<in> fst ` set C. t \<in> fst ` set pr" "spec_S pr \<noteq> 0" "0 < N"
  shows "spec_fused pr N C =
     Fin (sinh ((\<Sum>(t, c)\<leftarrow>C. real c * weightOf pr t / spec_S pr) / real N * real (length C)))"
  using assms(3) by (simp add: spec_fused_def spec_weightedMean_def jsum_Fin [OF assms(1,2)])


section \<open>Lemmas about the colour rule\<close>

lemma jmod_nonneg: "0 \<le> x \<Longrightarrow> jmod (Fin x) (Fin 255) = Fin (rmod x 255)"
  by (simp add: trunc_def rmod_def)

lemma atLeast0_Fin: "atLeast0 (Fin x) = Fin (max 0 x)"
  by (simp add: atLeast0_def jlt_def max_def)

lemma atMost255_Fin: "atMost255 (Fin x) = Fin (min 255 x)"
  by (simp add: atMost255_def min_def)

lemma rgbBrightness_Fin: "rgbBrightness [Fin r, Fin g, Fin b] = Fin (spec_brightness r g b)"
  by (simp add: rgbBrightness_def chan_def spec_brightness_def algebra_simps)

lemma cssDimensionAdapt_Fin:
  "0 \<le> B \<Longrightarrow> cssDimensionAdapt (Fin B) (Fin w) = Fin (spec_target B w)"
  by (simp add: cssDimensionAdapt_def spec_target_def Let_def algebra_simps)

lemma adaptedChannels_Fin:
  assumes "0 \<le> r" "0 \<le> g" "0 \<le> b"
  shows "adaptedChannels [Fin r, Fin g, Fin b] (Fin w) = fin3 (amended_channels r g b w)"
proof -
  define B where "B = spec_brightness r g b"
  define T where "T = spec_target B w"
  have B0: "0 \<le> B" using assms by (simp add: B_def spec_brightness_def)
  have Bs: "B \<le> r + g + b" using assms by (simp add: B_def spec_brightness_def)
  have old: "rgbBrightness [Fin r, Fin g, Fin b] = Fin B"
    by (simp add: rgbBrightness_Fin B_def)
  have new: "cssDimensionAdapt (Fin B) (Fin w) = Fin T"
    by (simp add: cssDimensionAdapt_Fin [OF B0] T_def)
  show ?thesis
  proof (cases "T < B")
    case True
    then have "0 \<le> r + g + b - T" using Bs by simp
    from jmod_nonneg [OF this] True show ?thesis
      by (simp add: adaptedChannels_def old new Let_def chan_def jsub_def atLeast0_Fin
            amended_channels_def fin3_def B_def [symmetric] T_def [symmetric])
  next
    case False
    then have "0 \<le> T - B" by simp
    from jmod_nonneg [OF this] False show ?thesis
      by (simp add: adaptedChannels_def old new Let_def chan_def jsub_def atMost255_Fin
            amended_channels_def fin3_def B_def [symmetric] T_def [symmetric])
  qed
qed


section \<open>Lemmas for evaluation\<close>

lemma adapted_empty: "adaptedChannels [] w = (NaN, NaN, NaN)"
  by (simp add: adaptedChannels_def rgbBrightness_def chan_def cssDimensionAdapt_def Let_def
        jsub_def atMost255_def)

lemmas string_defs = isWhite_def isDigit_def dropSign_def isNegative_def digitValue_def
  toLowerCase_def toUpperCase_def upperChars_def lowerChars_def digitChars_def digitChar_def
  digitsValue_def

section \<open>The properties\<close>

text \<open>
  C1 (as amended). For channels in \<open>[0, 255]\<close> and a finite weight the target
  brightness is the brightness times \<open>1 + weight\<close>, or \<open>1 + weight\<close> when the brightness
  is 0. When the target is below the brightness, each channel loses
  \<open>(R + G + B - target) mod 255\<close> and is kept at 0 or above; otherwise each channel gains
  \<open>(target - brightness) mod 255\<close> and is kept at 255 or below.
\<close>

theorem cssColorAdapt_channels:
  assumes "0 \<le> r" "r \<le> 255" "0 \<le> g" "g \<le> 255" "0 \<le> b" "b \<le> 255"
  shows "adaptedChannels [Fin r, Fin g, Fin b] (Fin w) = fin3 (amended_channels r g b w) \<and>
         cssColorAdapt [Fin r, Fin g, Fin b] (Fin w) =
           cssColor (rgb2dec (fin3 (amended_channels r g b w)))"
  using assms by (simp add: cssColorAdapt_def adaptedChannels_Fin)

theorem cssColorAdapt_channels_witness:
  "adaptedChannels [Fin 200, Fin 100, Fin 50] (Fin (- (1 / 2))) =
     (Fin (1671 / 10), Fin (671 / 10), Fin (171 / 10)) \<and>
   adaptedChannels [Fin 0, Fin 0, Fin 0] (Fin 1) = (Fin 2, Fin 2, Fin 2)"
  using cssColorAdapt_channels [of 200 100 50 "- (1 / 2)"] cssColorAdapt_channels [of 0 0 0 1]
  by (simp add: amended_channels_def fin3_def spec_brightness_def spec_target_def rmod_def
        Let_def)

text \<open>
  C1 as stated fails: for the grey \<open>(100, 100, 100)\<close> and weight \<open>1/2\<close> the brightness
  rises from 100 to 150; the code adds \<open>(150 - 100) % 255 = 50\<close> to each channel, while the
  adjustment \<open>(300 - 150) mod 255 = 150\<close> of the claim gives 250.
\<close>

theorem cssColorAdapt_delta_counterexample:
  "adaptedChannels [Fin 100, Fin 100, Fin 100] (Fin (1 / 2)) = (Fin 150, Fin 150, Fin 150) \<and>
   fin3 (spec_channels 100 100 100 (1 / 2)) = (Fin 250, Fin 250, Fin 250) \<and>
   adaptedChannels [Fin 100, Fin 100, Fin 100] (Fin (1 / 2)) \<noteq>
     fin3 (spec_channels 100 100 100 (1 / 2))"
proof -
  have code: "adaptedChannels [Fin 100, Fin 100, Fin 100] (Fin (1 / 2)) = (Fin 150, Fin 150, Fin 150)"
    using adaptedChannels_Fin [of 100 100 100 "1 / 2"]
    by (simp add: amended_channels_def fin3_def spec_brightness_def spec_target_def rmod_def
          Let_def)
  have spec: "fin3 (spec_channels 100 100 100 (1 / 2)) = (Fin 250, Fin 250, Fin 250)"
    by (simp add: spec_channels_def fin3_def spec_brightness_def spec_target_def rmod_def
          Let_def)
  show ?thesis by (simp add: code spec)
qed

text \<open>
  C2. For a positive total and a rank object (distinct keys), \<open>fuseRank\<close> maps every path
  to the rank of the specification, computed from the sub-map of the path, the weights
  divided by the sum \<open>S\<close> of all configured weights, the total and the number \<open>n\<close> of event
  types of the path. When every observed event type is configured and \<open>S\<close> is not 0 this
  is the real number \<open>sinh (((\<Sum> C[t] * w[t] / S) / total) * n)\<close>. Five clicks on one
  path with \<open>{click: 1}\<close> and a total of 5 give \<open>sinh 1\<close>.
\<close>

theorem fuseRank_formula:
  assumes "0 < evCnt" "distinct (map fst rank)"
  shows "fuseRank pr evCnt rank = map (\<lambda>(p, C). (p, spec_fused pr evCnt C)) rank \<and>
         (\<forall>p C. (p, C) \<in> set rank \<longrightarrow> (\<forall>t \<in> fst ` set C. t \<in> fst ` set pr) \<longrightarrow>
            spec_S pr \<noteq> 0 \<longrightarrow>
            map_of (fuseRank pr evCnt rank) p =
              Some (Fin (sinh ((\<Sum>(t, c)\<leftarrow>C. real c * weightOf pr t / spec_S pr) / real evCnt
                                * real (length C))))) \<and>
         fuseRank [(''click'', 1)] 5 [(P, [(''click'', 5)])] = [(P, Fin (sinh 1))]"
proof (intro conjI allI impI)
  show m: "fuseRank pr evCnt rank = map (\<lambda>(p, C). (p, spec_fused pr evCnt C)) rank"
    by (rule fuseRank_map [OF assms])
  show "fuseRank [(''click'', 1)] 5 [(P, [(''click'', 5)])] = [(P, Fin (sinh 1))]"
    by (simp add: fuseRank_map spec_fused_def spec_weightedMean_def spec_S_def priorityOf_def)
next
  fix p C
  assume mem: "(p, C) \<in> set rank" and conf: "\<forall>t \<in> fst ` set C. t \<in> fst ` set pr"
    and S: "spec_S pr \<noteq> 0"
  have "map_of rank p = Some C"
    using assms(2) mem by simp
  then have "map_of (map (\<lambda>(p, C). (p, spec_fused pr evCnt C)) rank) p = Some (spec_fused pr evCnt C)"
    by (simp add: map_of_map_keyed)
  then show "map_of (fuseRank pr evCnt rank) p =
      Some (Fin (sinh ((\<Sum>(t, c)\<leftarrow>C. real c * weightOf pr t / spec_S pr) / real evCnt
                        * real (length C))))"
    by (simp add: fuseRank_map [OF assms] spec_fused_real [OF conf S assms(1)])
qed

theorem fuseRank_formula_witness:
  "fuseRank [(''click'', 2), (''keydown'', 2)] 5
     [(''/html/body'', [(''click'', 3), (''keydown'', 1)]), (''/html'', [(''click'', 1)])]
   = [(''/html/body'', Fin (sinh (4 / 5))), (''/html'', Fin (sinh (1 / 10)))]"
proof -
  let ?pr = "[(''click'', 2), (''keydown'', 2)] :: real obj"
  let ?C1 = "[(''click'', 3), (''keydown'', 1)] :: nat obj"
  let ?C2 = "[(''click'', 1)] :: nat obj"
  let ?rank = "[(''/html/body'', ?C1), (''/html'', ?C2)]"
  have pos: "0 < (5::nat)" by simp
  have dist: "distinct (map fst ?rank)" by simp
  have S: "spec_S ?pr = 4" by (simp add: spec_S_def)
  note inst = fuseRank_formula [OF pos dist, of ?pr]
  have shape: "fuseRank ?pr 5 ?rank =
      [(''/html/body'', spec_fused ?pr 5 ?C1), (''/html'', spec_fused ?pr 5 ?C2)]"
    using inst [THEN conjunct1] by simp
  have a: "map_of (fuseRank ?pr 5 ?rank) ''/html/body'' = Some (Fin (sinh (4 / 5)))"
    using inst [THEN conjunct2, THEN conjunct1, rule_format, of "''/html/body''" ?C1]
    by (simp add: S weightOf_def)
  have b: "map_of (fuseRank ?pr 5 ?rank) ''/html'' = Some (Fin (sinh (1 / 10)))"
    using inst [THEN conjunct2, THEN conjunct1, rule_format, of "''/html''" ?C2]
    by (simp add: S weightOf_def)
  from a b show ?thesis unfolding shape by simp
qed

text \<open>
  C3. For a fused rank object (distinct keys) and a previous rank that may be absent,
  \<open>diffRank\<close> returns an object with exactly the keys of the fused rank, in the same order;
  a path of both objects maps to the fused value minus the previous one, a path of the
  fused rank alone keeps its value, and a path of the previous rank alone is dropped.
  With no previous rank the result is the fused rank, and a path whose two values are equal
  maps to 0.
\<close>

theorem diffRank_reconcile:
  assumes "distinct (map fst fused)"
  shows "map fst (diffRank fused prev) = map fst fused \<and>
         (\<forall>p v. map_of fused p = Some v \<longrightarrow>
            map_of (diffRank fused prev) p =
              Some (case prev of
                      None \<Rightarrow> v
                    | Some old \<Rightarrow> (case map_of old p of None \<Rightarrow> v | Some w \<Rightarrow> jsub v (Fin w)))) \<and>
         (\<forall>p. map_of fused p = None \<longrightarrow> map_of (diffRank fused prev) p = None) \<and>
         diffRank fused None = fused \<and>
         (\<forall>p x old. prev = Some old \<longrightarrow> map_of fused p = Some (Fin x) \<longrightarrow>
            map_of old p = Some x \<longrightarrow> map_of (diffRank fused prev) p = Some (Fin 0))"
proof -
  let ?f = "\<lambda>p v. case prev of None \<Rightarrow> v
                 | Some old \<Rightarrow> (case map_of old p of None \<Rightarrow> v | Some w \<Rightarrow> jsub v (Fin w))"
  have d: "diffRank fused prev = map (\<lambda>(p, v). (p, ?f p v)) fused"
    by (rule diffRank_map [OF assms])
  have keys: "map fst (diffRank fused prev) = map fst fused"
    by (simp add: d case_prod_unfold comp_def)
  have look: "map_of (diffRank fused prev) p = map_option (?f p) (map_of fused p)" for p
    unfolding d by (rule map_of_map_keyed)
  have none: "diffRank fused None = fused"
    by (simp add: diffRank_map [OF assms])
  have both: "map_of (diffRank fused prev) p = Some (Fin 0)"
    if "prev = Some old" "map_of fused p = Some (Fin x)" "map_of old p = Some x" for p x old
    unfolding look using that by (simp add: jsub_def)
  have some: "\<forall>p v. map_of fused p = Some v \<longrightarrow>
      map_of (diffRank fused prev) p = Some (?f p v)"
    by (simp add: look)
  have dropped: "\<forall>p. map_of fused p = None \<longrightarrow> map_of (diffRank fused prev) p = None"
    by (simp add: look)
  have zero: "\<forall>p x old. prev = Some old \<longrightarrow> map_of fused p = Some (Fin x) \<longrightarrow>
      map_of old p = Some x \<longrightarrow> map_of (diffRank fused prev) p = Some (Fin 0)"
    using both by blast
  from keys some dropped none zero show ?thesis by blast
qed

theorem diffRank_reconcile_witness:
  "map fst (diffRank [(''/html/body'', Fin 3), (''/html'', Fin 1)]
             (Some [(''/html/body'', 3), (''/html/head'', 7)])) = [''/html/body'', ''/html''] \<and>
   map_of (diffRank [(''/html/body'', Fin 3), (''/html'', Fin 1)]
             (Some [(''/html/body'', 3), (''/html/head'', 7)])) ''/html/body'' = Some (Fin 0) \<and>
   map_of (diffRank [(''/html/body'', Fin 3), (''/html'', Fin 1)]
             (Some [(''/html/body'', 3), (''/html/head'', 7)])) ''/html'' = Some (Fin 1) \<and>
   map_of (diffRank [(''/html/body'', Fin 3), (''/html'', Fin 1)]
             (Some [(''/html/body'', 3), (''/html/head'', 7)])) ''/html/head'' = None"
proof -
  let ?fused = "[(''/html/body'', Fin 3), (''/html'', Fin 1)]"
  let ?prev = "Some [(''/html/body'', 3), (''/html/head'', 7 :: real)]"
  have dist: "distinct (map fst ?fused)" by simp
  note inst = diffRank_reconcile [OF dist, of ?prev]
  from inst have keys: "map fst (diffRank ?fused ?prev) = [''/html/body'', ''/html'']" by simp
  from inst [THEN conjunct2, THEN conjunct2, THEN conjunct2, THEN conjunct2, rule_format,
      of _ "''/html/body''" 3]
  have a: "map_of (diffRank ?fused ?prev) ''/html/body'' = Some (Fin 0)" by simp
  from inst [THEN conjunct2, THEN conjunct1, rule_format, of "''/html''" "Fin 1"]
  have b: "map_of (diffRank ?fused ?prev) ''/html'' = Some (Fin 1)" by simp
  from inst [THEN conjunct2, THEN conjunct2, THEN conjunct1, rule_format, of "''/html/head''"]
  have c: "map_of (diffRank ?fused ?prev) ''/html/head'' = None" by simp
  from keys a b c show ?thesis by simp
qed

text \<open>
  C4 (the code departs from the claim). A colour value that \<open>parseColor\<close> cannot read,
  such as the keyword \<open>pink\<close>, is not left alone: for every weight \<open>restyle\<close> hands the
  string \<open>#000NAN\<close> to \<open>setStyle\<close>. A value with a numeral that \<open>parseFloat\<close> cannot read,
  such as a transform matrix, is replaced by \<open>NaN\<close>. The branch for values without a
  numeral writes the value back unchanged.
\<close>

theorem restyle_unparsed_value:
  "restyle ''color'' ''pink'' w = Some ''#000NAN'' \<and>
   restyle ''transform'' ''matrix(1, 0, 0, 1, 0, 0)'' w = Some ''NaN'' \<and>
   restyle ''font-weight'' ''bold'' w = Some ''bold''"
proof -
  have pc: "parseColor ''pink'' = []" by code_simp
  have enc: "cssColor (rgb2dec (NaN, NaN, NaN)) = ''#000NAN''" by code_simp
  have col: "containsStr ''color'' ''color''" by code_simp
  have a: "restyle ''color'' ''pink'' w = Some ''#000NAN''"
    by (simp add: restyle_def col pc cssColorAdapt_def adapted_empty enc)
  have pd: "parseDimension ''matrix(1, 0, 0, 1, 0, 0)'' = (NaN, None)" by code_simp
  have nocol: "\<not> containsStr ''color'' ''transform''" by code_simp
  have dig: "\<exists>c \<in> set ''matrix(1, 0, 0, 1, 0, 0)''. isDigit c" by code_simp
  have nan: "jadd v NaN = NaN" for v by (cases v) simp_all
  have b: "restyle ''transform'' ''matrix(1, 0, 0, 1, 0, 0)'' w = Some ''NaN''"
    using dig by (simp add: restyle_def nocol pd plusUnit_def nan numToString_def)
  have nocol2: "\<not> containsStr ''color'' ''font-weight''" by code_simp
  have nodig: "\<not> (\<exists>c \<in> set ''bold''. isDigit c)" by code_simp
  have c: "restyle ''font-weight'' ''bold'' w = Some ''bold''"
    using nodig by (simp add: restyle_def nocol2)
  from a b c show ?thesis by simp
qed

text \<open>
  C5 (the code departs from the claim). \<open>parseDimension\<close> does not take the rest of the
  string as the unit: it splits the string at the printed number and takes the second
  part. For \<open>10px 10px\<close> the unit is \<open>px\<close> followed by a space and the second length is
  lost; for \<open>1.50em\<close> the unit is \<open>0em\<close>, so the weight 1 turns it into \<open>30em\<close>. The two
  examples of the claim hold.
\<close>

theorem parseDimension_unit:
  "parseDimension ''10px 10px'' = (Fin 10, Some ''px '') \<and>
   restyle ''border-spacing'' ''10px 10px'' (Fin 1) = Some ''20px '' \<and>
   parseDimension ''1.50em'' = (Fin (3 / 2), Some ''0em'') \<and>
   restyle ''margin'' ''1.50em'' (Fin 1) = Some ''30em'' \<and>
   restyle ''margin'' ''10px'' (Fin 1) = Some ''20px'' \<and>
   restyle ''margin'' ''0px'' (Fin 1) = Some ''2px''"
proof -
  have a: "parseDimension ''10px 10px'' = (Fin 10, Some ''px '')" by code_simp
  have b: "restyle ''border-spacing'' ''10px 10px'' (Fin 1) = Some ''20px ''" by code_simp
  have c: "parseDimension ''1.50em'' = (Fin (3 / 2), Some ''0em'')" by code_simp
  have d: "restyle ''margin'' ''1.50em'' (Fin 1) = Some ''30em''" by code_simp
  have e: "restyle ''margin'' ''10px'' (Fin 1) = Some ''20px''" by code_simp
  have f: "restyle ''margin'' ''0px'' (Fin 1) = Some ''2px''" by code_simp
  from a b c d e f show ?thesis by simp
qed

text \<open>
  C6 (the code departs from the claim). \<open>rgb2hex\<close> pads a one-digit channel by doubling
  the digit, not with a zero: the channels \<open>(2, 2, 2)\<close>, which black becomes with the weight
  1, are encoded as \<open>#222222\<close> and not as \<open>#020202\<close>.
\<close>

theorem rgb2hex_single_digit:
  "parseColor ''rgb(0, 0, 0)'' = [Fin 0, Fin 0, Fin 0] \<and>
   adaptedChannels [Fin 0, Fin 0, Fin 0] (Fin 1) = (Fin 2, Fin 2, Fin 2) \<and>
   rgb2hex (Fin 2, Fin 2, Fin 2) = ''222222'' \<and>
   cssColorAdapt [Fin 0, Fin 0, Fin 0] (Fin 1) = ''#222222'' \<and>
   restyle ''color'' ''rgb(0, 0, 0)'' (Fin 1) = Some ''#222222''"
proof -
  have a: "parseColor ''rgb(0, 0, 0)'' = [Fin 0, Fin 0, Fin 0]" by code_simp
  have b: "adaptedChannels [Fin 0, Fin 0, Fin 0] (Fin 1) = (Fin 2, Fin 2, Fin 2)" by code_simp
  have c: "rgb2hex (Fin 2, Fin 2, Fin 2) = ''222222''" by code_simp
  have dec: "parseInt ''222222'' (Some 16) = Fin 2236962"
    by (simp add: parseInt_def Let_def string_defs)
  have enc: "cssColor (Fin 2236962) = ''#222222''"
    by (simp add: cssColor_def numToString_def Let_def natDigits.simps string_defs)
  have d: "cssColorAdapt [Fin 0, Fin 0, Fin 0] (Fin 1) = ''#222222''"
    by (simp add: cssColorAdapt_def rgb2dec_def b c dec enc)
  have col: "containsStr ''color'' ''color''" by code_simp
  have e: "restyle ''color'' ''rgb(0, 0, 0)'' (Fin 1) = Some ''#222222''"
    by (simp add: restyle_def col a d)
  from a b c d e show ?thesis by simp
qed

text \<open>
  C7. The grey \<open>#808080\<close> has the channels 128 and the brightness 128. With the weight 0
  the target brightness is 128 again, no channel moves and the result is \<open>#808080\<close>. With
  the weight 1 every channel rises to the bound 255, the result is \<open>#FFFFFF\<close>, and its
  brightness 255 is above 128.
\<close>

theorem cssColorAdapt_grey:
  "parseColor ''#808080'' = [Fin 128, Fin 128, Fin 128] \<and>
   rgbBrightness (parseColor ''#808080'') = Fin 128 \<and>
   cssDimensionAdapt (rgbBrightness (parseColor ''#808080'')) (Fin 0) = Fin 128 \<and>
   adaptedChannels (parseColor ''#808080'') (Fin 0) = (Fin 128, Fin 128, Fin 128) \<and>
   restyle ''color'' ''#808080'' (Fin 0) = Some ''#808080'' \<and>
   adaptedChannels (parseColor ''#808080'') (Fin 1) = (Fin 255, Fin 255, Fin 255) \<and>
   restyle ''color'' ''#808080'' (Fin 1) = Some ''#FFFFFF'' \<and>
   parseColor ''#FFFFFF'' = [Fin 255, Fin 255, Fin 255] \<and>
   rgbBrightness (parseColor ''#FFFFFF'') = Fin 255 \<and>
   jgt (rgbBrightness (parseColor ''#FFFFFF'')) (rgbBrightness (parseColor ''#808080''))"
proof -
  have a: "parseColor ''#808080'' = [Fin 128, Fin 128, Fin 128]" by code_simp
  have b: "rgbBrightness [Fin 128, Fin 128, Fin 128] = Fin 128" by code_simp
  have c: "cssDimensionAdapt (Fin 128) (Fin 0) = Fin 128" by code_simp
  have d: "adaptedChannels [Fin 128, Fin 128, Fin 128] (Fin 0) = (Fin 128, Fin 128, Fin 128)"
    by code_simp
  have col: "containsStr ''color'' ''color''" by code_simp
  have hex0: "rgb2hex (Fin 128, Fin 128, Fin 128) = ''808080''" by code_simp
  have dec0: "parseInt ''808080'' (Some 16) = Fin 8421504"
    by (simp add: parseInt_def Let_def string_defs)
  have enc0: "cssColor (Fin 8421504) = ''#808080''"
    by (simp add: cssColor_def numToString_def Let_def natDigits.simps string_defs)
  have e: "restyle ''color'' ''#808080'' (Fin 0) = Some ''#808080''"
    by (simp add: restyle_def col a cssColorAdapt_def rgb2dec_def d hex0 dec0 enc0)
  have f: "adaptedChannels [Fin 128, Fin 128, Fin 128] (Fin 1) = (Fin 255, Fin 255, Fin 255)"
    by code_simp
  have hex1: "rgb2hex (Fin 255, Fin 255, Fin 255) = ''ffffff''" by code_simp
  have dec1: "parseInt ''ffffff'' (Some 16) = Fin 16777215"
    by (simp add: parseInt_def Let_def string_defs)
  have enc1: "cssColor (Fin 16777215) = ''#FFFFFF''"
    by (simp add: cssColor_def numToString_def Let_def natDigits.simps string_defs)
  have g: "restyle ''color'' ''#808080'' (Fin 1) = Some ''#FFFFFF''"
    by (simp add: restyle_def col a cssColorAdapt_def rgb2dec_def f hex1 dec1 enc1)
  have h: "parseColor ''#FFFFFF'' = [Fin 255, Fin 255, Fin 255]" by code_simp
  have i: "rgbBrightness [Fin 255, Fin 255, Fin 255] = Fin 255" by code_simp
  from a b c d e f g h i show ?thesis by simp
qed

text \<open>
  C8. In a session started from an empty ranking, when the total count is 0 at unload the
  ranking object is empty, so \<open>fuseRank\<close> returns the empty object without dividing, the
  difference with the previous rank is empty, and \<open>saveRank\<close> changes nothing but the
  entry \<open>ace-rank\<close> of the storage, which becomes the empty object.
\<close>

theorem saveRank_no_events:
  "evCount (run es (init d pr prev store)) = 0 \<longrightarrow>
     fuseRank pr 0 (evRank (run es (init d pr prev store))) = [] \<and>
     diffRank (fuseRank pr 0 (evRank (run es (init d pr prev store)))) prev = [] \<and>
     saveRank (run es (init d pr prev store)) =
       (run es (init d pr prev store))\<lparr>db := store(''ace-rank'' \<mapsto> [])\<rparr>"
proof
  let ?s = "run es (init d pr prev store)"
  assume zero: "evCount ?s = 0"
  have "tracked ?s" by (rule tracked_run [OF tracked_init])
  with zero have "positive (evRank ?s)" "total (evRank ?s) = 0"
    by (simp_all add: tracked_def)
  then have empty: "evRank ?s = []" by (rule positive_total_zero)
  have frame: "priorities ?s = pr" "prevRank ?s = prev" "db ?s = store"
    using run_frame [of es "init d pr prev store"] by (simp_all add: init_def)
  have fuse: "fuseRank pr 0 [] = []" by (simp add: fuseRank_def)
  have diff: "diffRank [] prev = []" by (simp add: diffRank_def)
  show "fuseRank pr 0 (evRank ?s) = [] \<and> diffRank (fuseRank pr 0 (evRank ?s)) prev = [] \<and>
        saveRank ?s = ?s\<lparr>db := store(''ace-rank'' \<mapsto> [])\<rparr>"
    by (simp add: saveRank_def Let_def empty frame zero fuse diff)
qed

theorem saveRank_no_events_witness:
  "evCount (run [clickNowhere] (init exampleDoc [(''click'', 1)] None Map.empty)) = 0 \<and>
   fuseRank [(''click'', 1)] 0
     (evRank (run [clickNowhere] (init exampleDoc [(''click'', 1)] None Map.empty))) = [] \<and>
   db (saveRank (run [clickNowhere] (init exampleDoc [(''click'', 1)] None Map.empty)))
     ''ace-rank'' = Some []"
proof -
  let ?s = "run [clickNowhere] (init exampleDoc [(''click'', 1)] None Map.empty)"
  have fe: "findElement exampleDoc clickNowhere = Inl TypeError" by code_simp
  have zero: "evCount ?s = 0" by (simp add: updateRank_def init_def fe)
  from saveRank_no_events [of "[clickNowhere]" exampleDoc "[(''click'', 1)]" None Map.empty] zero
  show ?thesis by simp
qed

text \<open>
  C9. The path of a node is a function of the document and the node alone, and recording
  events does not change the document: at any two moments of a session, \<open>getXPath\<close> on the
  same node returns the same result (the same string, or the same exception).
\<close>

theorem getXPath_deterministic:
  "doc (run es s) = doc s \<and> getXPath (doc (run es s)) p = getXPath (doc s) p \<and>
   findElement (doc (run es s)) e = findElement (doc s) e"
  by (simp add: run_frame)

text \<open>
  C10. In every state of a session started from an empty ranking, \<open>evCount\<close> is the sum
  of all the counts in \<open>evRank\<close>, and a total of 0 means that \<open>evRank\<close> is empty. A call of
  \<open>updateRank\<close> that returns adds 1 to \<open>evCount\<close> and to the count of the path of the target
  and the type of the event, leaves every other count as it was, and changes nothing else
  in the state.
\<close>

theorem updateRank_invariant:
  "evCount (run es (init d pr prev store)) = total (evRank (run es (init d pr prev store))) \<and>
   (evCount (run es (init d pr prev store)) = 0 \<longrightarrow> evRank (run es (init d pr prev store)) = []) \<and>
   (\<forall>s'. updateRank e s = Inr s' \<longrightarrow>
      (\<exists>elem. findElement (doc s) e = Inr elem \<and>
         (\<forall>p t. count (evRank s') p t =
            count (evRank s) p t + (if p = elem \<and> t = etype e then 1 else 0))) \<and>
      evCount s' = evCount s + 1 \<and>
      total (evRank s') = total (evRank s) + 1 \<and>
      s'\<lparr>evRank := evRank s, evCount := evCount s\<rparr> = s)"
proof -
  let ?s = "run es (init d pr prev store)"
  have tr: "tracked ?s" by (rule tracked_run [OF tracked_init])
  then have inv: "evCount ?s = total (evRank ?s)" by (simp add: tracked_def)
  have empty: "evCount ?s = 0 \<longrightarrow> evRank ?s = []"
    using tr positive_total_zero [of "evRank ?s"] by (simp add: tracked_def)
  have step: "(\<exists>elem. findElement (doc s) e = Inr elem \<and>
         (\<forall>p t. count (evRank s') p t =
            count (evRank s) p t + (if p = elem \<and> t = etype e then 1 else 0))) \<and>
      evCount s' = evCount s + 1 \<and>
      total (evRank s') = total (evRank s) + 1 \<and>
      s'\<lparr>evRank := evRank s, evCount := evCount s\<rparr> = s"
    if "updateRank e s = Inr s'" for s'
  proof (cases "findElement (doc s) e")
    case (Inl err)
    with that show ?thesis by (simp add: updateRank_def)
  next
    case (Inr elem)
    with that have s': "s' = s\<lparr>evRank := bumpRank elem (etype e) (evRank s), evCount := evCount s + 1\<rparr>"
      by (simp add: updateRank_def)
    show ?thesis
      by (simp add: s' Inr count_bumpRank total_bumpRank)
  qed
  from inv empty step show ?thesis by blast
qed

theorem updateRank_invariant_witness:
  "(\<exists>s'. updateRank clickDiv (init exampleDoc [] None Map.empty) = Inr s' \<and>
      evCount s' = 1 \<and> total (evRank s') = 1 \<and>
      count (evRank s') ''/html/body/div[1]'' ''click'' = 1 \<and>
      count (evRank s') ''/html/body'' ''click'' = 0) \<and>
   evCount (run [clickDiv, clickNowhere, clickDiv] (init exampleDoc [] None Map.empty)) = 2 \<and>
   total (evRank (run [clickDiv, clickNowhere, clickDiv] (init exampleDoc [] None Map.empty))) = 2 \<and>
   evRank (run [clickNowhere] (init exampleDoc [] None Map.empty)) = []"
proof -
  let ?s0 = "init exampleDoc [] None Map.empty"
  have fe: "findElement exampleDoc clickDiv = Inr ''/html/body/div[1]''" by code_simp
  have fn: "findElement exampleDoc clickNowhere = Inl TypeError" by code_simp
  obtain s' where s': "updateRank clickDiv ?s0 = Inr s'"
    by (simp add: updateRank_def init_def fe)
  note step = updateRank_invariant [of "[]" exampleDoc "[]" None Map.empty clickDiv ?s0,
      THEN conjunct2, THEN conjunct2, rule_format, OF s']
  from step have one: "evCount s' = 1" "total (evRank s') = 1"
    by (simp_all add: init_def total_def)
  from step fe have here: "count (evRank s') ''/html/body/div[1]'' ''click'' = 1"
    by (simp add: init_def count_def evtsOf_def countOf_def clickDiv_def)
  from step fe have there: "count (evRank s') ''/html/body'' ''click'' = 0"
    by (simp add: init_def count_def evtsOf_def countOf_def clickDiv_def)
  have two: "evCount (run [clickDiv, clickNowhere, clickDiv] ?s0) = 2"
    by (simp add: updateRank_def init_def fe fn)
  have zero: "evCount (run [clickNowhere] ?s0) = 0"
    by (simp add: updateRank_def init_def fn)
  note a = updateRank_invariant [of "[clickDiv, clickNowhere, clickDiv]" exampleDoc "[]" None
      Map.empty clickDiv ?s0, THEN conjunct1]
  note b = updateRank_invariant [of "[clickNowhere]" exampleDoc "[]" None Map.empty clickDiv ?s0,
      THEN conjunct2, THEN conjunct1, rule_format, OF zero]
  from s' one here there two a b show ?thesis by auto
qed

end
